theory Spec2Isabelle
  imports Main "HOL-Library.Sublist"
begin

section \<open>JavaScript values read from the APOD feed\<close>

text \<open>
  The feed is the result of \<^verbatim>\<open>res.json()\<close>: an arbitrary JSON value. A property that is
  absent from an object reads as \<^verbatim>\<open>undefined\<close>, so \<open>JUndefined\<close> is part of the value
  type although JSON text never contains it. Numbers carry an integer payload: the code
  only ever tests a number for truthiness (non-zero) and passes it on.
  An object is the list of its own properties; the first binding of a key is the
  property's value.
\<close>

datatype jsval =
    JUndefined
  | JNull
  | JBool bool
  | JNum int
  | JStr string
  | JArr "jsval list"
  | JObj "(string \<times> jsval) list"

datatype js_error =
    TypeError
  | NetworkError nat
  | SyntaxError
  | FetchFailed

text \<open>JavaScript truthiness (\<^verbatim>\<open>ToBoolean\<close>).\<close>

fun truthy :: "jsval \<Rightarrow> bool" where
  "truthy JUndefined = False"
| "truthy JNull = False"
| "truthy (JBool b) = b"
| "truthy (JNum n) = (n \<noteq> 0)"
| "truthy (JStr s) = (s \<noteq> [])"
| "truthy (JArr xs) = True"
| "truthy (JObj kvs) = True"

text \<open>The operator \<^verbatim>\<open>a || b\<close>: the left operand when it is truthy, else the right one.\<close>

definition js_or :: "jsval \<Rightarrow> jsval \<Rightarrow> jsval" where
  "js_or a b = (if truthy a then a else b)"

text \<open>
  Property access \<^verbatim>\<open>item.k\<close>. Reading a property of \<^verbatim>\<open>null\<close> or \<^verbatim>\<open>undefined\<close> throws a
  TypeError. The code reads only the names title, date, explanation, media_type, url,
  hdurl and thumbnail_url; none of them is defined on the prototypes of booleans,
  numbers, strings or arrays, so they read as \<^verbatim>\<open>undefined\<close> there.
\<close>

fun get_prop :: "jsval \<Rightarrow> string \<Rightarrow> js_error + jsval" where
  "get_prop JUndefined k = Inl TypeError"
| "get_prop JNull k = Inl TypeError"
| "get_prop (JObj kvs) k = Inr (case map_of kvs k of None \<Rightarrow> JUndefined | Some v \<Rightarrow> v)"
| "get_prop v k = Inr JUndefined"

text \<open>
  \<open>read_prop\<close> is the same access once an earlier access to the same value has succeeded
  (the value is then neither \<^verbatim>\<open>null\<close> nor \<^verbatim>\<open>undefined\<close> and the access cannot throw).
\<close>

definition read_prop :: "jsval \<Rightarrow> string \<Rightarrow> jsval" where
  "read_prop item k = (case get_prop item k of Inl e \<Rightarrow> JUndefined | Inr v \<Rightarrow> v)"


section \<open>String operations used by the video URL normalisation\<close>

text \<open>\<^verbatim>\<open>s.includes(sub)\<close>: \<open>sub\<close> occurs in \<open>s\<close> as a contiguous substring.\<close>

fun includes_str :: "string \<Rightarrow> string \<Rightarrow> bool" where
  "includes_str [] sub = (sub = [])"
| "includes_str (c # cs) sub = (prefix sub (c # cs) \<or> includes_str cs sub)"

text \<open>
  \<^verbatim>\<open>s.split(sep)\<close> for a non-empty separator: scan from the left, cut at every
  occurrence of the separator and continue behind it; the piece collected so far is
  \<open>acc\<close> (reversed).
\<close>

function split_from :: "string \<Rightarrow> string \<Rightarrow> string \<Rightarrow> string list" where
  "split_from sep acc [] = [rev acc]"
| "split_from sep acc (c # cs) =
     (if sep \<noteq> [] \<and> prefix sep (c # cs)
      then rev acc # split_from sep [] (drop (length sep) (c # cs))
      else split_from sep (c # acc) cs)"
  by pat_completeness auto
termination
  by (relation "measure (\<lambda>(sep, acc, s). length s)") auto

text \<open>With the empty separator \<^verbatim>\<open>split\<close> cuts the string into its single characters.\<close>

definition split_str :: "string \<Rightarrow> string \<Rightarrow> string list" where
  "split_str s sep = (if sep = [] then map (\<lambda>c. [c]) s else split_from sep [] s)"

text \<open>
  The method calls on an arbitrary value. Strings and arrays have \<^verbatim>\<open>includes\<close> (on an
  array it looks for an element equal to the argument); only strings have \<^verbatim>\<open>split\<close>.
  Calling a method that the value does not have throws a TypeError.
\<close>

fun js_includes :: "jsval \<Rightarrow> string \<Rightarrow> js_error + bool" where
  "js_includes (JStr s) m = Inr (includes_str s m)"
| "js_includes (JArr xs) m = Inr (JStr m \<in> set xs)"
| "js_includes v m = Inl TypeError"

fun js_split :: "jsval \<Rightarrow> string \<Rightarrow> js_error + string list" where
  "js_split (JStr s) m = Inr (split_str s m)"
| "js_split v m = Inl TypeError"

text \<open>
  \<^verbatim>\<open>w.split(marker)[1].split(delim)[0]\<close>. Index 1 of a shorter array is \<^verbatim>\<open>undefined\<close>,
  and calling \<^verbatim>\<open>split\<close> on it throws; index 0 of an empty array is \<^verbatim>\<open>undefined\<close>, which
  a template literal prints as the text "undefined".
\<close>

definition extract_id :: "jsval \<Rightarrow> string \<Rightarrow> string \<Rightarrow> js_error + string" where
  "extract_id w marker delim =
     (case js_split w marker of
        Inl e \<Rightarrow> Inl e
      | Inr parts \<Rightarrow>
          (case parts of
             p0 # p1 # rest \<Rightarrow>
               (case split_str p1 delim of
                  [] \<Rightarrow> Inr ''undefined''
                | x # xs \<Rightarrow> Inr x)
           | _ \<Rightarrow> Inl TypeError))"

definition yt_watch :: "string \<Rightarrow> string" where
  "yt_watch ident = ''https://www.youtube.com/watch?v='' @ ident"

definition yt_thumb :: "string \<Rightarrow> string" where
  "yt_thumb ident = ''https://img.youtube.com/vi/'' @ ident @ ''/hqdefault.jpg''"

text \<open>
  The body of the \<^verbatim>\<open>try\<close> block of \<^verbatim>\<open>openApodModal\<close> (lines 237-248): from the current
  \<^verbatim>\<open>watchUrl\<close> and \<^verbatim>\<open>thumbUrl\<close> it yields their new values, or the exception thrown.
  No variable is assigned before the identifier has been extracted, so an exception
  leaves both unchanged.
\<close>

definition derive_fill :: "jsval \<Rightarrow> string \<Rightarrow> jsval" where
  "derive_fill thumbUrl ident = (if \<not> truthy thumbUrl then JStr (yt_thumb ident) else thumbUrl)"

definition derive_urls :: "jsval \<Rightarrow> jsval \<Rightarrow> js_error + (jsval \<times> jsval)" where
  "derive_urls watchUrl thumbUrl =
     (case js_includes watchUrl ''/embed/'' of
        Inl e \<Rightarrow> Inl e
      | Inr b1 \<Rightarrow>
          if b1 then
            (case extract_id watchUrl ''/embed/'' ''?'' of
               Inl e \<Rightarrow> Inl e
             | Inr ident \<Rightarrow> Inr (JStr (yt_watch ident), derive_fill thumbUrl ident))
          else
            (case js_includes watchUrl ''watch?v='' of
               Inl e \<Rightarrow> Inl e
             | Inr b2 \<Rightarrow>
                 if b2 then
                   (case extract_id watchUrl ''watch?v='' ''&'' of
                      Inl e \<Rightarrow> Inl e
                    | Inr ident \<Rightarrow> Inr (watchUrl, derive_fill thumbUrl ident))
                 else
                   (case js_includes watchUrl ''youtu.be/'' of
                      Inl e \<Rightarrow> Inl e
                    | Inr b3 \<Rightarrow>
                        if b3 then
                          (case extract_id watchUrl ''youtu.be/'' ''?'' of
                             Inl e \<Rightarrow> Inl e
                           | Inr ident \<Rightarrow> Inr (JStr (yt_watch ident), derive_fill thumbUrl ident))
                        else Inr (watchUrl, thumbUrl))))"

text \<open>\<^verbatim>\<open>try { body } catch (e) { handler }\<close> on results.\<close>

definition try_catch :: "js_error + 'a \<Rightarrow> (js_error \<Rightarrow> js_error + 'a) \<Rightarrow> js_error + 'a" where
  "try_catch body handler = (case body of Inl e \<Rightarrow> handler e | Inr v \<Rightarrow> Inr v)"

text \<open>
  Lines 233-251: \<^verbatim>\<open>watchUrl\<close> and \<^verbatim>\<open>thumbUrl\<close> start from the record's \<^verbatim>\<open>url\<close> and
  \<^verbatim>\<open>thumbnail_url\<close>; the \<^verbatim>\<open>catch\<close> block is empty, so after an exception both keep
  their initial values.
\<close>

definition normalize_video :: "jsval \<Rightarrow> jsval \<Rightarrow> js_error + (jsval \<times> jsval)" where
  "normalize_video url thumbnail_url =
     (let watchUrl = js_or url (JStr '''');
          thumbUrl = js_or thumbnail_url (JStr '''')
      in try_catch (derive_urls watchUrl thumbUrl) (\<lambda>e. Inr (watchUrl, thumbUrl)))"

text \<open>
  A url of a recognisable shape: a string that contains the embed-link marker, the
  watch-link marker or the short-link marker.
\<close>

definition recognized_shape :: "jsval \<Rightarrow> bool" where
  "recognized_shape url =
     (case url of
        JStr s \<Rightarrow> includes_str s ''/embed/'' \<or> includes_str s ''watch?v=''
                  \<or> includes_str s ''youtu.be/''
      | _ \<Rightarrow> False)"


section \<open>The modal\<close>

text \<open>
  Elements that can hold the focus: the modal's close button, or another element of the
  page, identified by a number, with a flag telling whether \<^verbatim>\<open>typeof el.focus\<close> is
  \<^verbatim>\<open>'function'\<close>.
\<close>

datatype element =
    CloseBtn
  | PageEl nat bool

fun has_focus_fn :: "element \<Rightarrow> bool" where
  "has_focus_fn CloseBtn = True"
| "has_focus_fn (PageEl n f) = f"

text \<open>
  Children of the media container \<^verbatim>\<open>.apod-modal-media\<close>. \<open>ImgEl\<close> is a reference to the
  one persistent \<^verbatim>\<open>imgEl\<close> created with the modal; its \<^verbatim>\<open>src\<close> and \<^verbatim>\<open>alt\<close> live in the
  modal state. All other nodes are created afresh on every open and carry the values
  assigned to them: \<open>ThumbImg src alt styled\<close> (an \<^verbatim>\<open>img\<close>; \<open>styled\<close> when width, height
  and border radius are set), \<open>PText\<close> (a \<^verbatim>\<open>p\<close> with its text), \<open>Hint\<close> (the
  \<^verbatim>\<open>div.video-embed-hint\<close> with its text) and \<open>WatchLink href\<close> (the link
  "Watch video on YouTube", \<^verbatim>\<open>target=_blank\<close>, \<^verbatim>\<open>rel="noopener noreferrer"\<close>).
  A value assigned to a DOM attribute is kept as assigned; its conversion to text by
  the browser is not modelled.
\<close>

datatype media_node =
    ImgEl
  | ThumbImg jsval jsval bool
  | PText string
  | Hint string
  | WatchLink jsval

text \<open>
  The module state of the modal: \<open>created\<close> is \<^verbatim>\<open>_apodModal !== null\<close>, \<open>prev_active\<close> is
  \<^verbatim>\<open>_apodModalPrevActive\<close>, \<open>active\<close> is \<^verbatim>\<open>document.activeElement\<close>, \<open>esc_listener\<close>
  tells whether \<^verbatim>\<open>_apodModalKeydown\<close> is registered on the document (registering the
  same function twice registers it once).
\<close>

record modal_state =
  created :: bool
  display :: string
  media_children :: "media_node list"
  img_src :: jsval
  img_alt :: jsval
  iframe_src :: jsval
  title_text :: jsval
  date_text :: jsval
  expl_text :: jsval
  prev_active :: "element option"
  active :: "element option"
  esc_listener :: bool

text \<open>
  \<^verbatim>\<open>parent.appendChild(n)\<close>: a node that is already a child is moved to the end. Only
  the persistent \<open>ImgEl\<close> can be a child already; every other node is new.
\<close>

definition appendChild :: "media_node \<Rightarrow> media_node list \<Rightarrow> media_node list" where
  "appendChild n cs = (if n = ImgEl then removeAll ImgEl cs else cs) @ [n]"

text \<open>\<^verbatim>\<open>while (mediaWrap.firstChild) mediaWrap.removeChild(mediaWrap.firstChild)\<close>.\<close>

fun remove_children :: "media_node list \<Rightarrow> media_node list" where
  "remove_children [] = []"
| "remove_children (c # cs) = remove_children cs"

definition createApodModal :: "modal_state \<Rightarrow> modal_state" where
  "createApodModal s =
     s\<lparr>created := True,
       img_alt := JStr '''',
       media_children := appendChild ImgEl []\<rparr>"

text \<open>
  Lines 223-291 of \<^verbatim>\<open>openApodModal\<close>: the media branch, on a state whose media
  container has been emptied.
\<close>

definition place_media :: "jsval \<Rightarrow> modal_state \<Rightarrow> js_error + modal_state" where
  "place_media item s =
     (let media_type = read_prop item ''media_type'';
          hdurl = read_prop item ''hdurl'';
          url = read_prop item ''url'';
          thumbnail_url = read_prop item ''thumbnail_url'';
          title = read_prop item ''title''
      in
      if media_type = JStr ''image'' \<and> truthy hdurl then
        Inr (s\<lparr>img_src := js_or hdurl (js_or url (JStr '''')),
                img_alt := js_or title (JStr ''APOD image''),
                media_children := appendChild ImgEl (media_children s)\<rparr>)
      else if media_type = JStr ''image'' \<and> truthy url then
        Inr (s\<lparr>img_src := url,
                img_alt := js_or title (JStr ''APOD image''),
                media_children := appendChild ImgEl (media_children s)\<rparr>)
      else if media_type = JStr ''video'' \<and> truthy url then
        (case normalize_video url thumbnail_url of
           Inl e \<Rightarrow> Inl e
         | Inr (watchUrl, thumbUrl) \<Rightarrow>
             let first_node =
                   (if truthy thumbUrl
                    then ThumbImg thumbUrl (js_or title (JStr ''Video thumbnail'')) True
                    else PText ''Video (no thumbnail available)'');
                 watchLink = WatchLink (js_or watchUrl (js_or url (JStr ''#'')));
                 hint = Hint ''This video will open on YouTube.''
             in Inr (s\<lparr>media_children :=
                        appendChild watchLink
                          (appendChild hint
                            (appendChild first_node (media_children s)))\<rparr>))
      else if media_type = JStr ''video'' \<and> truthy thumbnail_url then
        Inr (s\<lparr>media_children :=
                  appendChild (ThumbImg thumbnail_url (js_or title (JStr ''Video thumbnail'')) False)
                    (media_children s)\<rparr>)
      else
        Inr (s\<lparr>media_children := appendChild (PText ''Media not available.'') (media_children s)\<rparr>))"

text \<open>
  \<^verbatim>\<open>openApodModal(item)\<close>. The first property access (\<^verbatim>\<open>item.title\<close>) throws when the
  item is \<^verbatim>\<open>null\<close> or \<^verbatim>\<open>undefined\<close>; the state reached by an exception is not tracked.
\<close>

definition openApodModal :: "jsval \<Rightarrow> modal_state \<Rightarrow> js_error + modal_state" where
  "openApodModal item s0 =
     (let s1 = (if \<not> created s0 then createApodModal s0 else s0);
          s2 = s1\<lparr>prev_active := active s1\<rparr>
      in
      case get_prop item ''title'' of
        Inl e \<Rightarrow> Inl e
      | Inr title \<Rightarrow>
          let s3 = s2\<lparr>title_text := js_or title (JStr ''Untitled''),
                      date_text := js_or (read_prop item ''date'') (JStr ''''),
                      expl_text := js_or (read_prop item ''explanation'') (JStr '''')\<rparr>;
              s4 = s3\<lparr>media_children := remove_children (media_children s3)\<rparr>
          in
          (case place_media item s4 of
             Inl e \<Rightarrow> Inl e
           | Inr s5 \<Rightarrow>
               Inr (s5\<lparr>display := ''flex'',
                       active := Some CloseBtn,
                       esc_listener := True\<rparr>)))"

text \<open>\<^verbatim>\<open>closeApodModal()\<close>; calling \<^verbatim>\<open>el.focus()\<close> makes \<open>el\<close> the active element.\<close>

definition closeApodModal :: "modal_state \<Rightarrow> modal_state" where
  "closeApodModal s =
     (if \<not> created s then s
      else
        let s1 = s\<lparr>display := ''none'', iframe_src := JStr '''', esc_listener := False\<rparr>
        in (case prev_active s1 of
              None \<Rightarrow> s1
            | Some el \<Rightarrow> if has_focus_fn el then s1\<lparr>active := Some el\<rparr> else s1))"

definition apodModalKeydown :: "string \<Rightarrow> modal_state \<Rightarrow> modal_state" where
  "apodModalKeydown key s = (if key = ''Escape'' then closeApodModal s else s)"

text \<open>
  User events that can reach the modal's listeners. A click is described by its target:
  the overlay itself, the close button, or anything else inside the content box.
  The overlay's listener sees every click inside the overlay (events bubble) and closes
  only when the target is the overlay; the close button has its own listener; key
  presses reach \<^verbatim>\<open>_apodModalKeydown\<close> while it is registered.
\<close>

datatype click_target = OnOverlay | OnCloseBtn | InsideBox

datatype ui_event = Click click_target | KeyDown string

fun handle_event :: "ui_event \<Rightarrow> modal_state \<Rightarrow> modal_state" where
  "handle_event (Click OnOverlay) s = (if created s then closeApodModal s else s)"
| "handle_event (Click OnCloseBtn) s = (if created s then closeApodModal s else s)"
| "handle_event (Click InsideBox) s = s"
| "handle_event (KeyDown key) s = (if esc_listener s then apodModalKeydown key s else s)"

text \<open>What the media container shows: \<open>ImgEl\<close> resolved to the current attributes.\<close>

datatype shown_node =
    ShownImg jsval jsval
  | ShownText string
  | ShownHint string
  | ShownLink jsval

fun show_node :: "modal_state \<Rightarrow> media_node \<Rightarrow> shown_node" where
  "show_node s ImgEl = ShownImg (img_src s) (img_alt s)"
| "show_node s (ThumbImg src alt styled) = ShownImg src alt"
| "show_node s (PText t) = ShownText t"
| "show_node s (Hint t) = ShownHint t"
| "show_node s (WatchLink href) = ShownLink href"

definition shown_media :: "modal_state \<Rightarrow> shown_node list" where
  "shown_media s = map (show_node s) (media_children s)"

text \<open>The fixed texts among the children of the media container.\<close>

fun node_texts :: "media_node \<Rightarrow> string list" where
  "node_texts (PText t) = [t]"
| "node_texts (Hint t) = [t]"
| "node_texts (WatchLink href) = [''Watch video on YouTube'']"
| "node_texts n = []"

definition media_texts :: "modal_state \<Rightarrow> string list" where
  "media_texts s = concat (map node_texts (media_children s))"

text \<open>
  The state when the script has loaded: no modal yet, nothing remembered, the
  element \<open>el\<close> focused.
\<close>

definition initial_modal :: "element option \<Rightarrow> modal_state" where
  "initial_modal el =
     \<lparr>created = False, display = '''', media_children = [],
      img_src = JStr '''', img_alt = JStr '''', iframe_src = JStr '''',
      title_text = JStr '''', date_text = JStr '''', expl_text = JStr '''',
      prev_active = None, active = el, esc_listener = False\<rparr>"


section \<open>The gallery\<close>

text \<open>
  The gallery's content is kept as structure, not as HTML text: a placeholder block
  (telescope icon and "No items found."; reload icon and "Loading space photos";
  warning icon and "Failed to load data. Check the console for details."), or a card.
  A card's media markup is one of: \<open>ImageMedia src alt\<close>, an \<^verbatim>\<open>img\<close>;
  \<open>VideoThumb src title\<close>, a thumbnail \<^verbatim>\<open>img\<close> under the play overlay, whose \<^verbatim>\<open>alt\<close> is
  the title followed by " (video thumbnail)"; \<open>VideoPlaceholder href\<close>, the placeholder
  box with its "Watch video" link (\<^verbatim>\<open>target=_blank\<close>, \<^verbatim>\<open>rel="noopener noreferrer"\<close>);
  \<open>UnsupportedType mediaType\<close>, the paragraph "Unsupported media type: " followed by the
  media type. The values interpolated into the template are kept as they are. Every
  card has \<^verbatim>\<open>tabIndex\<close> 0 and opens the modal on its item (\<open>apodItem\<close>) on a click and on
  the keys Enter and Space.
\<close>

datatype placeholder = NoItemsFound | LoadingPhotos | FailedToLoad

datatype card_media =
    ImageMedia jsval jsval
  | VideoThumb jsval jsval
  | VideoPlaceholder jsval
  | UnsupportedType jsval

record card =
  media :: card_media
  card_title :: jsval
  card_date :: jsval
  apodItem :: jsval

datatype gallery_child = Placeholder placeholder | Card card

text \<open>The body of the \<^verbatim>\<open>forEach\<close> callback up to the card's content (lines 74-126).\<close>

definition make_card :: "jsval \<Rightarrow> js_error + card" where
  "make_card item =
     (case get_prop item ''title'' of
        Inl e \<Rightarrow> Inl e
      | Inr t \<Rightarrow>
          let title = js_or t (JStr ''Untitled'');
              date = js_or (read_prop item ''date'') (JStr '''');
              mediaType = js_or (read_prop item ''media_type'') (JStr ''image'');
              url = js_or (read_prop item ''url'') (JStr '''');
              thumb = js_or (read_prop item ''thumbnail_url'') (JStr '''');
              mediaHtml =
                (if mediaType = JStr ''image'' then ImageMedia url title
                 else if mediaType = JStr ''video'' then
                   (if truthy thumb then VideoThumb thumb title
                    else VideoPlaceholder (js_or url (JStr ''#'')))
                 else UnsupportedType mediaType)
          in Inr \<lparr>media = mediaHtml, card_title = title, card_date = date, apodItem = item\<rparr>)"

text \<open>
  \<^verbatim>\<open>items.forEach\<close>: cards are appended one by one; an exception stops the loop and
  leaves the cards appended so far in the gallery.
\<close>

fun render_items :: "jsval list \<Rightarrow> gallery_child list \<Rightarrow> gallery_child list \<times> js_error option" where
  "render_items [] g = (g, None)"
| "render_items (item # items) g =
     (case make_card item of
        Inl e \<Rightarrow> (g, Some e)
      | Inr c \<Rightarrow> render_items items (g @ [Card c]))"

text \<open>
  \<^verbatim>\<open>renderGallery(items)\<close>: the new content of the gallery and the exception thrown, if
  any. The previous content is discarded first.
\<close>

fun renderGallery :: "jsval \<Rightarrow> gallery_child list \<Rightarrow> gallery_child list \<times> js_error option" where
  "renderGallery (JArr items) g =
     (if length items = 0 then ([Placeholder NoItemsFound], None)
      else render_items items [])"
| "renderGallery v g = ([Placeholder NoItemsFound], None)"


section \<open>The fetch button\<close>

text \<open>
  What the network does with the one request: it fails, or it answers with a status
  (\<open>ok\<close> for 200-299) and a body that parses as JSON or does not.
\<close>

datatype response =
    NoResponse
  | Response bool nat "jsval option"

record page_state =
  btn_disabled :: bool
  btn_label :: string
  gallery :: "gallery_child list"
  fullData :: jsval

definition fetchApodData :: "response \<Rightarrow> page_state \<Rightarrow> (js_error + jsval) \<times> page_state" where
  "fetchApodData r s =
     (case r of
        NoResponse \<Rightarrow> (Inl FetchFailed, s)
      | Response ok status body \<Rightarrow>
          if \<not> ok then (Inl (NetworkError status), s)
          else (case body of
                  None \<Rightarrow> (Inl SyntaxError, s)
                | Some data \<Rightarrow> (Inr data, s\<lparr>fullData := data\<rparr>)))"

text \<open>
  The click handler of the fetch button, run to its end for a request that the network
  settles with \<open>r\<close>: the part before the \<^verbatim>\<open>await\<close>, the \<^verbatim>\<open>try\<close> block, the \<^verbatim>\<open>catch\<close>
  block and the \<^verbatim>\<open>finally\<close> block.
\<close>

definition on_fetch_error :: "page_state \<Rightarrow> page_state" where
  "on_fetch_error s = s\<lparr>gallery := [Placeholder FailedToLoad]\<rparr>"

definition on_fetch_finally :: "page_state \<Rightarrow> page_state" where
  "on_fetch_finally s = s\<lparr>btn_disabled := False, btn_label := ''Fetch Space Images''\<rparr>"

definition getImageBtn_click :: "response \<Rightarrow> page_state \<Rightarrow> page_state" where
  "getImageBtn_click r s0 =
     (let s1 = s0\<lparr>btn_disabled := True, btn_label := ''Loading...'',
                  gallery := [Placeholder LoadingPhotos]\<rparr>
      in
      case fetchApodData r s1 of
        (Inl e, s2) \<Rightarrow> on_fetch_finally (on_fetch_error s2)
      | (Inr items, s2) \<Rightarrow>
          let s3 = s2\<lparr>fullData := items\<rparr>;
              (g, err) = renderGallery items (gallery s3);
              s4 = s3\<lparr>gallery := g\<rparr>
          in (case err of
                None \<Rightarrow> on_fetch_finally s4
              | Some e \<Rightarrow> on_fetch_finally (on_fetch_error s4)))"

text \<open>Whether an attempt failed: the fetch rejected, or rendering threw.\<close>

definition attempt_failed :: "response \<Rightarrow> bool" where
  "attempt_failed r =
     (case r of
        NoResponse \<Rightarrow> True
      | Response ok status body \<Rightarrow>
          \<not> ok \<or> (case body of None \<Rightarrow> True | Some data \<Rightarrow> snd (renderGallery data []) \<noteq> None))"


section \<open>Basic facts\<close>

lemma get_prop_nonnull: "get_prop item k = Inr v \<Longrightarrow> get_prop item k' = Inr (read_prop item k')"
  by (cases item) (simp_all add: read_prop_def)

lemma get_prop_read: "get_prop item k = Inr v \<Longrightarrow> read_prop item k = v"
  by (simp add: read_prop_def)

text \<open>\<open>includes_str\<close> is the contiguous-sublist relation of the library.\<close>

lemma includes_str_sublist: "includes_str s sub \<longleftrightarrow> sublist sub s"
  by (induction s) (simp_all add: sublist_Cons_right)

lemma includes_str_nonempty: "includes_str s m \<Longrightarrow> m \<noteq> [] \<Longrightarrow> s \<noteq> []"
  by (cases s) auto

lemma split_from_ne: "split_from sep acc s \<noteq> []"
  by (induction sep acc s rule: split_from.induct) auto

text \<open>A string that contains the separator splits into at least two pieces.\<close>

lemma split_from_two:
  "sep \<noteq> [] \<Longrightarrow> includes_str s sep \<Longrightarrow> \<exists>p0 p1 rest. split_from sep acc s = p0 # p1 # rest"
proof (induction sep acc s rule: split_from.induct)
  case (1 sep acc)
  then show ?case by simp
next
  case (2 sep acc c cs)
  show ?case
  proof (cases "prefix sep (c # cs)")
    case True
    obtain x xs where "split_from sep [] (drop (length sep) (c # cs)) = x # xs"
      using split_from_ne [of sep "[]" "drop (length sep) (c # cs)"] by (auto simp: neq_Nil_conv)
    with True 2(3) show ?thesis by simp
  next
    case False
    with 2 show ?thesis by simp
  qed
qed

text \<open>So index 1 exists whenever \<^verbatim>\<open>includes\<close> has answered true: no TypeError on strings.\<close>

lemma extract_id_ok:
  assumes "marker \<noteq> []" "includes_str s marker"
  shows "\<exists>ident. extract_id (JStr s) marker delim = Inr ident"
proof -
  obtain p0 p1 rest where "split_str s marker = p0 # p1 # rest"
    using split_from_two [OF assms(1) assms(2), of "[]"] assms(1) by (auto simp: split_str_def)
  then show ?thesis
    by (simp add: extract_id_def split: list.splits)
qed

lemma derive_urls_str:
  "derive_urls (JStr s) t =
     (if includes_str s ''/embed/'' then
        (case extract_id (JStr s) ''/embed/'' ''?'' of Inl e \<Rightarrow> Inl e
         | Inr ident \<Rightarrow> Inr (JStr (yt_watch ident), derive_fill t ident))
      else if includes_str s ''watch?v='' then
        (case extract_id (JStr s) ''watch?v='' ''&'' of Inl e \<Rightarrow> Inl e
         | Inr ident \<Rightarrow> Inr (JStr s, derive_fill t ident))
      else if includes_str s ''youtu.be/'' then
        (case extract_id (JStr s) ''youtu.be/'' ''?'' of Inl e \<Rightarrow> Inl e
         | Inr ident \<Rightarrow> Inr (JStr (yt_watch ident), derive_fill t ident))
      else Inr (JStr s, t))"
  by (simp add: derive_urls_def)

lemma derive_urls_unrecognized:
  "\<not> recognized_shape w \<Longrightarrow> derive_urls w t = Inr (w, t) \<or> (\<exists>e. derive_urls w t = Inl e)"
  by (cases w)
     (simp_all add: derive_urls_def recognized_shape_def extract_id_def split: sum.splits)

lemma recognized_js_or: "recognized_shape (js_or url (JStr '''')) = recognized_shape url"
  by (cases url) (simp_all add: js_or_def recognized_shape_def)

lemma normalize_video_Inr: "\<exists>r. normalize_video url t = Inr r"
  by (cases "derive_urls (js_or url (JStr '''')) (js_or t (JStr ''''))")
     (simp_all add: normalize_video_def try_catch_def Let_def)

lemma normalize_video_unrecognized:
  "\<not> recognized_shape url \<Longrightarrow>
   normalize_video url t = Inr (js_or url (JStr ''''), js_or t (JStr ''''))"
  using derive_urls_unrecognized [of "js_or url (JStr '''')" "js_or t (JStr '''')"]
  by (auto simp add: normalize_video_def try_catch_def Let_def recognized_js_or)

lemma normalize_video_str:
  assumes "s \<noteq> []"
  shows "normalize_video (JStr s) t =
           try_catch (derive_urls (JStr s) (js_or t (JStr '''')))
             (\<lambda>e. Inr (JStr s, js_or t (JStr '''')))"
  using assms by (simp add: normalize_video_def js_or_def Let_def)

lemma derive_fill_js_or:
  "derive_fill (js_or t (JStr '''')) ident = (if truthy t then t else JStr (yt_thumb ident))"
  by (simp add: derive_fill_def js_or_def)

lemma normalize_embed:
  assumes "includes_str s ''/embed/''"
  shows "\<exists>ident. extract_id (JStr s) ''/embed/'' ''?'' = Inr ident \<and>
           normalize_video (JStr s) t =
             Inr (JStr (yt_watch ident), if truthy t then t else JStr (yt_thumb ident))"
proof -
  obtain ident where i: "extract_id (JStr s) ''/embed/'' ''?'' = Inr ident"
    using extract_id_ok [of "''/embed/''" s "''?''"] assms by auto
  have "s \<noteq> []" using includes_str_nonempty [OF assms] by simp
  then show ?thesis using i assms
    by (simp add: normalize_video_str derive_urls_str try_catch_def derive_fill_js_or)
qed

lemma normalize_watch:
  assumes "\<not> includes_str s ''/embed/''" "includes_str s ''watch?v=''"
  shows "\<exists>ident. extract_id (JStr s) ''watch?v='' ''&'' = Inr ident \<and>
           normalize_video (JStr s) t =
             Inr (JStr s, if truthy t then t else JStr (yt_thumb ident))"
proof -
  obtain ident where i: "extract_id (JStr s) ''watch?v='' ''&'' = Inr ident"
    using extract_id_ok [of "''watch?v=''" s "''&''"] assms by auto
  have "s \<noteq> []" using includes_str_nonempty [OF assms(2)] by simp
  then show ?thesis using i assms
    by (simp add: normalize_video_str derive_urls_str try_catch_def derive_fill_js_or)
qed

lemma normalize_short:
  assumes "\<not> includes_str s ''/embed/''" "\<not> includes_str s ''watch?v=''"
    "includes_str s ''youtu.be/''"
  shows "\<exists>ident. extract_id (JStr s) ''youtu.be/'' ''?'' = Inr ident \<and>
           normalize_video (JStr s) t =
             Inr (JStr (yt_watch ident), if truthy t then t else JStr (yt_thumb ident))"
proof -
  obtain ident where i: "extract_id (JStr s) ''youtu.be/'' ''?'' = Inr ident"
    using extract_id_ok [of "''youtu.be/''" s "''?''"] assms by auto
  have "s \<noteq> []" using includes_str_nonempty [OF assms(3)] by simp
  then show ?thesis using i assms
    by (simp add: normalize_video_str derive_urls_str try_catch_def derive_fill_js_or)
qed


lemma split_from_none:
  "\<not> includes_str s sep \<Longrightarrow> split_from sep acc s = [rev acc @ s]"
  by (induction s arbitrary: acc) simp_all

lemma prefix_short:
  assumes "prefix xs (ys @ zs)" "length xs \<le> length ys"
  shows "prefix xs ys"
proof -
  obtain us where "ys @ zs = xs @ us"
    using assms(1) by (auto simp add: prefix_def)
  then have "take (length xs) (ys @ zs) = xs"
    by simp
  then have "xs = take (length xs) ys"
    using assms(2) by simp
  then show ?thesis
    by (metis take_is_prefix)
qed

lemma split_from_first:
  assumes "sep \<noteq> []" "\<not> includes_str (pre @ butlast sep) sep"
  shows "split_from sep acc (pre @ sep @ q) = (rev acc @ pre) # split_from sep [] q"
  using assms(2)
proof (induction pre arbitrary: acc)
  case Nil
  obtain c cs where c: "sep @ q = c # cs"
    using assms(1) by (cases sep) auto
  have "prefix sep (c # cs)"
    using c by (metis prefixI)
  moreover have "drop (length sep) (c # cs) = q"
    using c by (metis append_eq_conv_conj)
  ultimately have "split_from sep acc (c # cs) = rev acc # split_from sep [] q"
    using assms(1) by simp
  then show ?case using c by simp
next
  case (Cons a pre)
  have n: "\<not> prefix sep (a # pre @ butlast sep)" "\<not> includes_str (pre @ butlast sep) sep"
    using Cons.prems by simp_all
  have "\<not> prefix sep (a # pre @ sep @ q)"
  proof
    assume p: "prefix sep (a # pre @ sep @ q)"
    have "a # pre @ sep @ q = (a # pre @ butlast sep) @ ([last sep] @ q)"
      using assms(1) by simp
    moreover have "length sep \<le> length (a # pre @ butlast sep)"
      by simp
    ultimately have "prefix sep (a # pre @ butlast sep)"
      using p prefix_short by metis
    then show False using n(1) by simp
  qed
  then show ?case using Cons.IH [OF n(2), of "a # acc"] by simp
qed

lemma includes_str_single: "includes_str s [d] \<longleftrightarrow> d \<in> set s"
  by (induction s) auto

lemma split_str_until:
  assumes "d \<notin> set ident" "tail = [] \<or> (\<exists>rest. tail = d # rest)"
  shows "\<exists>xs. split_str (ident @ tail) [d] = ident # xs"
proof (cases tail)
  case Nil
  then show ?thesis
    using assms(1) split_from_none [of ident "[d]" "[]"]
    by (simp add: split_str_def includes_str_single)
next
  case (Cons x rest)
  then have "tail = [d] @ rest" using assms(2) by auto
  then show ?thesis
    using assms(1) split_from_first [of "[d]" ident "[]" rest]
    by (simp add: split_str_def includes_str_single)
qed

text \<open>
  The identifier: when the marker first occurs behind \<open>pre\<close> and does not occur again,
  and the text behind it is \<open>ident\<close>, free of the delimiter, followed by nothing or by
  the delimiter and anything, then the identifier extracted is \<open>ident\<close>.
\<close>

lemma extract_id_between:
  assumes "marker \<noteq> []"
    and "\<not> includes_str (pre @ butlast marker) marker"
    and "\<not> includes_str (ident @ tail) marker"
    and "d \<notin> set ident" and "tail = [] \<or> (\<exists>rest. tail = d # rest)"
  shows "extract_id (JStr (pre @ marker @ ident @ tail)) marker [d] = Inr ident"
proof -
  have "split_str (pre @ marker @ ident @ tail) marker = [pre, ident @ tail]"
    using assms(1) split_from_first [OF assms(1,2), of "[]" "ident @ tail"]
      split_from_none [OF assms(3), of "[]"]
    by (simp add: split_str_def)
  moreover obtain xs where "split_str (ident @ tail) [d] = ident # xs"
    using split_str_until [OF assms(4,5)] by blast
  ultimately show ?thesis
    by (simp add: extract_id_def)
qed


text \<open>The spec's example shape: an embed link with or without a query string.\<close>

lemma embed_link_urls:
  assumes "\<not> includes_str (pre @ ''/embed'') ''/embed/''"
    and "\<not> includes_str (ident @ tail) ''/embed/''"
    and "CHR ''?'' \<notin> set ident" and "tail = [] \<or> (\<exists>rest. tail = CHR ''?'' # rest)"
  shows "normalize_video (JStr (pre @ ''/embed/'' @ ident @ tail)) t =
           Inr (JStr (yt_watch ident), if truthy t then t else JStr (yt_thumb ident))"
proof -
  have "sublist ''/embed/'' (pre @ ''/embed/'' @ ident @ tail)"
    by (metis sublist_appendI)
  then have i: "includes_str (pre @ ''/embed/'' @ ident @ tail) ''/embed/''"
    by (simp only: includes_str_sublist)
  have "extract_id (JStr (pre @ ''/embed/'' @ ident @ tail)) ''/embed/'' ''?'' = Inr ident"
    using extract_id_between [of "''/embed/''" pre ident tail "CHR ''?''"] assms by simp
  then show ?thesis
    using normalize_embed [OF i, of t] by simp
qed

section \<open>Facts about the modal\<close>

lemma remove_children_Nil: "remove_children cs = []"
  by (induction cs) simp_all

lemma place_media_Inr: "\<exists>s'. place_media item s = Inr s'"
proof -
  obtain w t where
    "normalize_video (read_prop item ''url'') (read_prop item ''thumbnail_url'') = Inr (w, t)"
    using normalize_video_Inr [of "read_prop item ''url''" "read_prop item ''thumbnail_url''"]
    by auto
  then show ?thesis
    by (simp add: place_media_def Let_def)
qed

text \<open>
  An open that returns has emptied the container (state \<open>s4\<close>), placed the media
  (state \<open>s5\<close>) and then shown the modal.
\<close>

lemma openApodModal_decomp:
  assumes "openApodModal item s = Inr s'"
  shows "\<exists>s4 s5. media_children s4 = [] \<and> place_media item s4 = Inr s5 \<and>
           s' = s5\<lparr>display := ''flex'', active := Some CloseBtn, esc_listener := True\<rparr> \<and>
           created s4 \<and> prev_active s4 = active s"
proof -
  obtain title where t: "get_prop item ''title'' = Inr title"
    using assms by (cases "get_prop item ''title''") (simp_all add: openApodModal_def Let_def)
  define s1 where "s1 = (if \<not> created s then createApodModal s else s)"
  define s4 where "s4 = s1\<lparr>prev_active := active s1,
                      title_text := js_or title (JStr ''Untitled''),
                      date_text := js_or (read_prop item ''date'') (JStr ''''),
                      expl_text := js_or (read_prop item ''explanation'') (JStr ''''),
                      media_children := []\<rparr>"
  obtain s5 where p: "place_media item s4 = Inr s5" using place_media_Inr by blast
  have o: "openApodModal item s = (case place_media item s4 of Inl e \<Rightarrow> Inl e
     | Inr s5 \<Rightarrow> Inr (s5\<lparr>display := ''flex'', active := Some CloseBtn, esc_listener := True\<rparr>))"
    using t by (simp add: openApodModal_def Let_def s4_def s1_def remove_children_Nil)
  have "created s1" "active s1 = active s"
    by (simp_all add: s1_def createApodModal_def)
  then have "created s4" "prev_active s4 = active s" "media_children s4 = []"
    by (simp_all add: s4_def)
  moreover have "s' = s5\<lparr>display := ''flex'', active := Some CloseBtn, esc_listener := True\<rparr>"
    using assms o p by simp
  ultimately show ?thesis using p by blast
qed

lemma openApodModal_Inr:
  assumes "get_prop item ''title'' = Inr v"
  shows "\<exists>s'. openApodModal item s = Inr s'"
proof -
  define s4 where "s4 = (let s1 = (if \<not> created s then createApodModal s else s);
          s2 = s1\<lparr>prev_active := active s1\<rparr>;
          s3 = s2\<lparr>title_text := js_or v (JStr ''Untitled''),
                  date_text := js_or (read_prop item ''date'') (JStr ''''),
                  expl_text := js_or (read_prop item ''explanation'') (JStr '''')\<rparr>
          in s3\<lparr>media_children := remove_children (media_children s3)\<rparr>)"
  obtain s5 where "place_media item s4 = Inr s5" using place_media_Inr by blast
  then show ?thesis using assms
    by (simp add: openApodModal_def Let_def s4_def)
qed

lemma shown_media_update:
  "shown_media (s\<lparr>display := d, active := a, esc_listener := l\<rparr>) = shown_media s"
proof -
  have "show_node (s\<lparr>display := d, active := a, esc_listener := l\<rparr>) n = show_node s n" for n
    by (cases n) simp_all
  then show ?thesis by (simp add: shown_media_def)
qed

text \<open>Placed into an empty container, the media depend on the item alone.\<close>

lemma place_media_children:
  assumes "place_media item s = Inr s'" "place_media item t = Inr t'"
    "media_children s = []" "media_children t = []"
  shows "media_children s' = media_children t'"
proof -
  obtain w u where
    n: "normalize_video (read_prop item ''url'') (read_prop item ''thumbnail_url'') = Inr (w, u)"
    using normalize_video_Inr [of "read_prop item ''url''" "read_prop item ''thumbnail_url''"]
    by auto
  show ?thesis using assms n
    by (auto simp add: place_media_def Let_def split: if_splits)
qed

lemma place_media_shown:
  assumes "place_media item s = Inr s'" "place_media item t = Inr t'"
    "media_children s = []" "media_children t = []"
  shows "shown_media s' = shown_media t'"
proof -
  obtain w u where
    n: "normalize_video (read_prop item ''url'') (read_prop item ''thumbnail_url'') = Inr (w, u)"
    using normalize_video_Inr [of "read_prop item ''url''" "read_prop item ''thumbnail_url''"]
    by auto
  show ?thesis using assms n
    by (auto simp add: place_media_def Let_def shown_media_def appendChild_def split: if_splits)
qed

lemma place_media_image:
  assumes "read_prop item ''media_type'' = JStr ''image''"
    and "place_media item s = Inr s'" and "media_children s = []"
  shows "shown_media s' =
           (if truthy (read_prop item ''hdurl'')
            then [ShownImg (read_prop item ''hdurl'')
                    (js_or (read_prop item ''title'') (JStr ''APOD image''))]
            else if truthy (read_prop item ''url'')
            then [ShownImg (read_prop item ''url'')
                    (js_or (read_prop item ''title'') (JStr ''APOD image''))]
            else [ShownText ''Media not available.''])"
  using assms
  by (auto simp add: place_media_def Let_def shown_media_def appendChild_def js_or_def
      split: if_splits)

lemma place_media_not_available:
  assumes "read_prop item ''media_type'' = mt"
    and "(mt \<noteq> JStr ''image'' \<and> mt \<noteq> JStr ''video'')
       \<or> (mt = JStr ''image'' \<and> \<not> truthy (read_prop item ''hdurl'')
            \<and> \<not> truthy (read_prop item ''url''))
       \<or> (mt = JStr ''video'' \<and> \<not> truthy (read_prop item ''url'')
            \<and> \<not> truthy (read_prop item ''thumbnail_url''))"
    and "place_media item s = Inr s'" and "media_children s = []"
  shows "media_children s' = [PText ''Media not available.'']"
  using assms by (auto simp add: place_media_def Let_def appendChild_def)

lemma place_media_texts:
  assumes "place_media item s = Inr s'" and "media_children s = []"
  shows "set (media_texts s') \<subseteq>
           {''Media not available.'', ''Video (no thumbnail available)'',
            ''This video will open on YouTube.'', ''Watch video on YouTube''}"
proof -
  obtain w u where
    n: "normalize_video (read_prop item ''url'') (read_prop item ''thumbnail_url'') = Inr (w, u)"
    using normalize_video_Inr [of "read_prop item ''url''" "read_prop item ''thumbnail_url''"]
    by auto
  show ?thesis using assms n
    by (auto simp add: place_media_def Let_def appendChild_def media_texts_def split: if_splits)
qed

lemma openApodModal_open_state:
  assumes "openApodModal item s0 = Inr s"
  shows "created s \<and> esc_listener s \<and> prev_active s = active s0 \<and>
         display s = ''flex'' \<and> active s = Some CloseBtn"
proof -
  obtain s4 s5 where s: "place_media item s4 = Inr s5"
      "s = s5\<lparr>display := ''flex'', active := Some CloseBtn, esc_listener := True\<rparr>"
      "created s4" "prev_active s4 = active s0"
    using openApodModal_decomp [OF assms] by blast
  obtain w u where
    n: "normalize_video (read_prop item ''url'') (read_prop item ''thumbnail_url'') = Inr (w, u)"
    using normalize_video_Inr [of "read_prop item ''url''" "read_prop item ''thumbnail_url''"]
    by auto
  have "created s5 \<and> prev_active s5 = prev_active s4"
    using s(1,3) n by (auto simp add: place_media_def Let_def split: if_splits)
  then show ?thesis using s by simp
qed

lemma close_open_state:
  assumes "created s" and "esc_listener s"
  shows "handle_event (Click OnOverlay) s = closeApodModal s"
    and "handle_event (Click OnCloseBtn) s = closeApodModal s"
    and "handle_event (KeyDown ''Escape'') s = closeApodModal s"
    and "display (closeApodModal s) = ''none''"
    and "\<not> esc_listener (closeApodModal s)"
    and "iframe_src (closeApodModal s) = JStr ''''"
    and "prev_active s = Some el \<Longrightarrow> has_focus_fn el \<Longrightarrow> active (closeApodModal s) = Some el"
  using assms
  by (auto simp add: apodModalKeydown_def closeApodModal_def Let_def split: option.splits)


section \<open>Facts about the gallery and the fetch button\<close>

lemma make_card_media:
  assumes "get_prop item ''title'' = Inr v"
  shows "\<exists>c. make_card item = Inr c \<and>
     media c =
       (let title = js_or (read_prop item ''title'') (JStr ''Untitled'');
            mediaType = js_or (read_prop item ''media_type'') (JStr ''image'');
            url = js_or (read_prop item ''url'') (JStr '''');
            thumb = js_or (read_prop item ''thumbnail_url'') (JStr '''')
        in (if mediaType = JStr ''image'' then ImageMedia url title
            else if mediaType = JStr ''video'' then
              (if truthy thumb then VideoThumb thumb title
               else VideoPlaceholder (js_or url (JStr ''#'')))
            else UnsupportedType mediaType))"
  using assms by (simp add: make_card_def Let_def read_prop_def)

lemma renderGallery_previous: "renderGallery items g = renderGallery items g'"
  by (cases items) simp_all

lemma finally_fields:
  "btn_disabled (on_fetch_finally s) = False"
  "btn_label (on_fetch_finally s) = ''Fetch Space Images''"
  "gallery (on_fetch_finally s) = gallery s"
  by (simp_all add: on_fetch_finally_def)

lemma getImageBtn_click_finally: "\<exists>s'. getImageBtn_click r s = on_fetch_finally s'"
  by (auto simp add: getImageBtn_click_def fetchApodData_def Let_def
      split: response.splits option.splits prod.splits sum.splits)

lemma getImageBtn_click_failed:
  assumes "attempt_failed r"
  shows "gallery (getImageBtn_click r s) = [Placeholder FailedToLoad]"
proof (cases r)
  case NoResponse
  then show ?thesis
    by (simp add: getImageBtn_click_def fetchApodData_def finally_fields on_fetch_error_def)
next
  case (Response ok status body)
  show ?thesis
  proof (cases "ok \<and> body \<noteq> None")
    case False
    then show ?thesis using Response
      by (auto simp add: getImageBtn_click_def fetchApodData_def finally_fields
          on_fetch_error_def Let_def)
  next
    case True
    then obtain data where b: "body = Some data" "ok" by auto
    obtain g e where rg: "renderGallery data [] = (g, Some e)"
      using assms Response b by (cases "renderGallery data []") (auto simp add: attempt_failed_def)
    have "renderGallery data [Placeholder LoadingPhotos] = (g, Some e)"
      using rg renderGallery_previous [of data "[Placeholder LoadingPhotos]" "[]"] by simp
    then show ?thesis using Response b
      by (simp add: getImageBtn_click_def fetchApodData_def finally_fields on_fetch_error_def)
  qed
qed

section \<open>The claims\<close>

subsection \<open>Video URL normalisation\<close>

text \<open>
  Claim C1, as the code has it. For a video record whose url is a string, the markers
  are tried in the order embed link, watch link, short link, and the identifier is the
  one \<open>extract_id\<close> cuts out behind the first marker found. For an embed link and a short
  link the watch URL is \<^verbatim>\<open>https://www.youtube.com/watch?v=\<close> followed by the
  identifier; for a watch link the watch URL is the record's url, unchanged. In all
  three cases the thumbnail is the record's \<^verbatim>\<open>thumbnail_url\<close> when that is truthy, and
  \<^verbatim>\<open>https://img.youtube.com/vi/\<close> identifier \<^verbatim>\<open>/hqdefault.jpg\<close> otherwise: a thumbnail
  the record carries is never replaced.
\<close>

theorem video_urls_from_identifier:
  "(includes_str s ''/embed/'' \<longrightarrow>
      (\<exists>ident. extract_id (JStr s) ''/embed/'' ''?'' = Inr ident \<and>
         normalize_video (JStr s) t =
           Inr (JStr (yt_watch ident), if truthy t then t else JStr (yt_thumb ident)))) \<and>
   (\<not> includes_str s ''/embed/'' \<and> includes_str s ''watch?v='' \<longrightarrow>
      (\<exists>ident. extract_id (JStr s) ''watch?v='' ''&'' = Inr ident \<and>
         normalize_video (JStr s) t =
           Inr (JStr s, if truthy t then t else JStr (yt_thumb ident)))) \<and>
   (\<not> includes_str s ''/embed/'' \<and> \<not> includes_str s ''watch?v='' \<and>
    includes_str s ''youtu.be/'' \<longrightarrow>
      (\<exists>ident. extract_id (JStr s) ''youtu.be/'' ''?'' = Inr ident \<and>
         normalize_video (JStr s) t =
           Inr (JStr (yt_watch ident), if truthy t then t else JStr (yt_thumb ident))))"
  using normalize_embed [of s t] normalize_watch [of s t] normalize_short [of s t]
  by blast

theorem video_urls_from_identifier_witness:
  "normalize_video (JStr ''https://www.youtube.com/embed/abc123'') JUndefined =
     Inr (JStr ''https://www.youtube.com/watch?v=abc123'',
          JStr ''https://img.youtube.com/vi/abc123/hqdefault.jpg'') \<and>
   normalize_video (JStr ''https://www.youtube.com/watch?v=abc123'') (JStr ''t.jpg'') =
     Inr (JStr ''https://www.youtube.com/watch?v=abc123'', JStr ''t.jpg'') \<and>
   normalize_video (JStr ''https://youtu.be/abc123?t=5'') JNull =
     Inr (JStr ''https://www.youtube.com/watch?v=abc123'',
          JStr ''https://img.youtube.com/vi/abc123/hqdefault.jpg'')"
proof -
  have e: "includes_str ''https://www.youtube.com/embed/abc123'' ''/embed/''"
    by code_simp
  have ei: "extract_id (JStr ''https://www.youtube.com/embed/abc123'') ''/embed/'' ''?'' =
              Inr ''abc123''"
    by code_simp
  have w: "\<not> includes_str ''https://www.youtube.com/watch?v=abc123'' ''/embed/''"
    "includes_str ''https://www.youtube.com/watch?v=abc123'' ''watch?v=''"
    by code_simp+
  have wi: "extract_id (JStr ''https://www.youtube.com/watch?v=abc123'') ''watch?v='' ''&'' =
              Inr ''abc123''"
    by code_simp
  have y: "\<not> includes_str ''https://youtu.be/abc123?t=5'' ''/embed/''"
    "\<not> includes_str ''https://youtu.be/abc123?t=5'' ''watch?v=''"
    "includes_str ''https://youtu.be/abc123?t=5'' ''youtu.be/''"
    by code_simp+
  have yi: "extract_id (JStr ''https://youtu.be/abc123?t=5'') ''youtu.be/'' ''?'' =
              Inr ''abc123''"
    by code_simp
  show ?thesis
    using video_urls_from_identifier [of "''https://www.youtube.com/embed/abc123''" JUndefined]
      video_urls_from_identifier [of "''https://www.youtube.com/watch?v=abc123''" "JStr ''t.jpg''"]
      video_urls_from_identifier [of "''https://youtu.be/abc123?t=5''" JNull]
      e ei w wi y yi
    by (simp add: yt_watch_def yt_thumb_def)
qed

text \<open>
  The claim as written also gives a watch link the watch URL built from the
  identifier. The code leaves a watch link's url as it is: with a second query
  parameter the identifier is \<^verbatim>\<open>abc\<close>, and the watch URL keeps \<^verbatim>\<open>&t=1\<close>.
\<close>

theorem watch_link_url_kept_counterexample:
  "includes_str ''https://www.youtube.com/watch?v=abc&t=1'' ''watch?v='' \<and>
   extract_id (JStr ''https://www.youtube.com/watch?v=abc&t=1'') ''watch?v='' ''&'' = Inr ''abc'' \<and>
   normalize_video (JStr ''https://www.youtube.com/watch?v=abc&t=1'') JUndefined =
     Inr (JStr ''https://www.youtube.com/watch?v=abc&t=1'',
          JStr ''https://img.youtube.com/vi/abc/hqdefault.jpg'') \<and>
   JStr ''https://www.youtube.com/watch?v=abc&t=1'' \<noteq> JStr (yt_watch ''abc'')"
  by code_simp

text \<open>
  Claim C4. Normalisation never raises: for every url and every thumbnail_url, of any
  type, \<open>normalize_video\<close> returns a pair. When the url is not a string containing one of
  the three markers (this includes every value on which a method call throws inside
  the \<^verbatim>\<open>try\<close> block), the pair is the provided url and thumbnail_url, each replaced by
  the empty string when falsy.
\<close>

theorem normalize_video_total:
  "(\<exists>w t. normalize_video url thumbnail_url = Inr (w, t)) \<and>
   (\<not> recognized_shape url \<longrightarrow>
      normalize_video url thumbnail_url =
        Inr (js_or url (JStr ''''), js_or thumbnail_url (JStr '''')))"
  using normalize_video_Inr [of url thumbnail_url]
    normalize_video_unrecognized [of url thumbnail_url]
  by auto

theorem normalize_video_total_witness:
  "\<not> recognized_shape (JStr ''not a url at all'') \<and>
   normalize_video (JStr ''not a url at all'') (JStr ''t.jpg'') =
     Inr (JStr ''not a url at all'', JStr ''t.jpg'') \<and>
   \<not> recognized_shape (JArr [JStr ''/embed/'']) \<and>
   derive_urls (JArr [JStr ''/embed/'']) (JStr '''') = Inl TypeError \<and>
   normalize_video (JArr [JStr ''/embed/'']) JNull = Inr (JArr [JStr ''/embed/''], JStr '''')"
proof -
  have a: "\<not> recognized_shape (JStr ''not a url at all'')"
    by code_simp
  have b: "\<not> recognized_shape (JArr [JStr ''/embed/''])"
    by (simp add: recognized_shape_def)
  have c: "derive_urls (JArr [JStr ''/embed/'']) (JStr '''') = Inl TypeError"
    by (simp add: derive_urls_def extract_id_def)
  show ?thesis
    using normalize_video_total [of "JStr ''not a url at all''" "JStr ''t.jpg''"]
      normalize_video_total [of "JArr [JStr ''/embed/'']" JNull] a b c
    by (simp add: js_or_def)
qed

subsection \<open>Images\<close>

text \<open>
  Claim C2, as the code has it. For a record with media_type "image": the gallery
  card always shows the record's url (the empty string when it is missing),
  whether or not an hdurl is present; the modal shows hdurl when it is truthy, else url
  when that is truthy, else the text "Media not available.".
\<close>

theorem image_display_url:
  assumes "get_prop item ''media_type'' = Inr (JStr ''image'')"
  shows "(\<exists>c. make_card item = Inr c \<and>
            media c = ImageMedia (js_or (read_prop item ''url'') (JStr ''''))
                                 (js_or (read_prop item ''title'') (JStr ''Untitled''))) \<and>
         (\<exists>s'. openApodModal item s = Inr s' \<and>
            shown_media s' =
              (if truthy (read_prop item ''hdurl'')
               then [ShownImg (read_prop item ''hdurl'')
                       (js_or (read_prop item ''title'') (JStr ''APOD image''))]
               else if truthy (read_prop item ''url'')
               then [ShownImg (read_prop item ''url'')
                       (js_or (read_prop item ''title'') (JStr ''APOD image''))]
               else [ShownText ''Media not available.'']))"
proof -
  have t: "get_prop item ''title'' = Inr (read_prop item ''title'')"
    using get_prop_nonnull [OF assms] .
  have m: "read_prop item ''media_type'' = JStr ''image''"
    using get_prop_read [OF assms] .
  obtain s' where o: "openApodModal item s = Inr s'"
    using openApodModal_Inr [OF t] by blast
  obtain s4 s5 where s: "media_children s4 = []" "place_media item s4 = Inr s5"
      "s' = s5\<lparr>display := ''flex'', active := Some CloseBtn, esc_listener := True\<rparr>"
    using openApodModal_decomp [OF o] by blast
  have "shown_media s' = shown_media s5"
    using s(3) by (simp add: shown_media_update)
  then have "shown_media s' =
              (if truthy (read_prop item ''hdurl'')
               then [ShownImg (read_prop item ''hdurl'')
                       (js_or (read_prop item ''title'') (JStr ''APOD image''))]
               else if truthy (read_prop item ''url'')
               then [ShownImg (read_prop item ''url'')
                       (js_or (read_prop item ''title'') (JStr ''APOD image''))]
               else [ShownText ''Media not available.''])"
    using place_media_image [OF m s(2) s(1)] by simp
  moreover have "\<exists>c. make_card item = Inr c \<and>
            media c = ImageMedia (js_or (read_prop item ''url'') (JStr ''''))
                                 (js_or (read_prop item ''title'') (JStr ''Untitled''))"
    using make_card_media [OF t] m by (auto simp add: Let_def js_or_def)
  ultimately show ?thesis using o by blast
qed

theorem image_display_url_witness:
  "get_prop (JObj [(''title'', JStr ''M1''), (''media_type'', JStr ''image''),
                   (''url'', JStr ''http://x/m1.jpg''), (''hdurl'', JStr ''http://x/m1_hd.jpg'')])
     ''media_type'' = Inr (JStr ''image'') \<and>
   (\<exists>c. make_card (JObj [(''title'', JStr ''M1''), (''media_type'', JStr ''image''),
                   (''url'', JStr ''http://x/m1.jpg''), (''hdurl'', JStr ''http://x/m1_hd.jpg'')])
           = Inr c \<and>
         media c = ImageMedia (JStr ''http://x/m1.jpg'') (JStr ''M1'')) \<and>
   (\<exists>s'. openApodModal (JObj [(''title'', JStr ''M1''), (''media_type'', JStr ''image''),
                   (''url'', JStr ''http://x/m1.jpg''), (''hdurl'', JStr ''http://x/m1_hd.jpg'')])
            (initial_modal None) = Inr s' \<and>
          shown_media s' = [ShownImg (JStr ''http://x/m1_hd.jpg'') (JStr ''M1'')])"
  using image_display_url [of "JObj [(''title'', JStr ''M1''), (''media_type'', JStr ''image''),
                   (''url'', JStr ''http://x/m1.jpg''), (''hdurl'', JStr ''http://x/m1_hd.jpg'')]"
          "initial_modal None"]
  by (simp add: read_prop_def js_or_def)

text \<open>
  The claim as written puts hdurl on the gallery card as well. The card of a record
  that has both shows url.
\<close>

theorem gallery_image_ignores_hdurl_counterexample:
  "read_prop (JObj [(''media_type'', JStr ''image''), (''url'', JStr ''http://x/m1.jpg''),
                    (''hdurl'', JStr ''http://x/m1_hd.jpg'')]) ''media_type'' = JStr ''image'' \<and>
   read_prop (JObj [(''media_type'', JStr ''image''), (''url'', JStr ''http://x/m1.jpg''),
                    (''hdurl'', JStr ''http://x/m1_hd.jpg'')]) ''hdurl'' = JStr ''http://x/m1_hd.jpg'' \<and>
   truthy (JStr ''http://x/m1_hd.jpg'') \<and>
   make_card (JObj [(''media_type'', JStr ''image''), (''url'', JStr ''http://x/m1.jpg''),
                    (''hdurl'', JStr ''http://x/m1_hd.jpg'')]) =
     Inr \<lparr>media = ImageMedia (JStr ''http://x/m1.jpg'') (JStr ''Untitled''),
          card_title = JStr ''Untitled'', card_date = JStr '''',
          apodItem = JObj [(''media_type'', JStr ''image''), (''url'', JStr ''http://x/m1.jpg''),
                           (''hdurl'', JStr ''http://x/m1_hd.jpg'')]\<rparr> \<and>
   JStr ''http://x/m1.jpg'' \<noteq> JStr ''http://x/m1_hd.jpg''"
  by (simp add: make_card_def read_prop_def js_or_def Let_def)


subsection \<open>Videos in the gallery\<close>

text \<open>
  Claim C3, as the code has it. For a record with media_type "video" the gallery card
  is the thumbnail with the play overlay exactly when the record's own thumbnail_url is
  truthy; otherwise it is the placeholder box whose link goes to the record's url (or
  to "#"). The gallery derives no thumbnail from the url.
\<close>

theorem gallery_video_variant:
  assumes "get_prop item ''media_type'' = Inr (JStr ''video'')"
  shows "\<exists>c. make_card item = Inr c \<and>
           media c = (if truthy (read_prop item ''thumbnail_url'')
                      then VideoThumb (read_prop item ''thumbnail_url'')
                             (js_or (read_prop item ''title'') (JStr ''Untitled''))
                      else VideoPlaceholder (js_or (read_prop item ''url'') (JStr ''#'')))"
proof -
  have t: "get_prop item ''title'' = Inr (read_prop item ''title'')"
    using get_prop_nonnull [OF assms] .
  have m: "read_prop item ''media_type'' = JStr ''video''"
    using get_prop_read [OF assms] .
  show ?thesis
    using make_card_media [OF t] m by (auto simp add: Let_def js_or_def)
qed

theorem gallery_video_variant_witness:
  "get_prop (JObj [(''media_type'', JStr ''video''), (''url'', JStr ''https://v/1''),
                   (''thumbnail_url'', JStr ''https://v/1.jpg'')]) ''media_type''
     = Inr (JStr ''video'') \<and>
   (\<exists>c. make_card (JObj [(''media_type'', JStr ''video''), (''url'', JStr ''https://v/1''),
                   (''thumbnail_url'', JStr ''https://v/1.jpg'')]) = Inr c \<and>
         media c = VideoThumb (JStr ''https://v/1.jpg'') (JStr ''Untitled'')) \<and>
   get_prop (JObj [(''media_type'', JStr ''video''), (''url'', JStr ''https://v/1'')]) ''media_type''
     = Inr (JStr ''video'') \<and>
   (\<exists>c. make_card (JObj [(''media_type'', JStr ''video''), (''url'', JStr ''https://v/1'')]) = Inr c \<and>
         media c = VideoPlaceholder (JStr ''https://v/1''))"
  using gallery_video_variant [of "JObj [(''media_type'', JStr ''video''), (''url'', JStr ''https://v/1''),
                   (''thumbnail_url'', JStr ''https://v/1.jpg'')]"]
    gallery_video_variant [of "JObj [(''media_type'', JStr ''video''), (''url'', JStr ''https://v/1'')]"]
  by (simp add: read_prop_def js_or_def)

text \<open>
  The claim as written makes the card a thumbnail card whenever a thumbnail can be
  derived from the url. For an embed link without thumbnail_url the modal's
  normalisation derives one, and the gallery card is the placeholder box.
\<close>

theorem gallery_video_no_derived_thumbnail_counterexample:
  "read_prop (JObj [(''media_type'', JStr ''video''),
                    (''url'', JStr ''https://www.youtube.com/embed/abc123'')]) ''media_type''
     = JStr ''video'' \<and>
   normalize_video (JStr ''https://www.youtube.com/embed/abc123'') JUndefined =
     Inr (JStr ''https://www.youtube.com/watch?v=abc123'',
          JStr ''https://img.youtube.com/vi/abc123/hqdefault.jpg'') \<and>
   make_card (JObj [(''media_type'', JStr ''video''),
                    (''url'', JStr ''https://www.youtube.com/embed/abc123'')]) =
     Inr \<lparr>media = VideoPlaceholder (JStr ''https://www.youtube.com/embed/abc123''),
          card_title = JStr ''Untitled'', card_date = JStr '''',
          apodItem = JObj [(''media_type'', JStr ''video''),
                           (''url'', JStr ''https://www.youtube.com/embed/abc123'')]\<rparr>"
  by code_simp

subsection \<open>Opening and closing the modal\<close>

text \<open>
  Claim C5. Opening the modal empties the media container before the new record's
  media are inserted: after opening on record \<open>a\<close> and then on record \<open>b\<close>, the children
  of the container, and what they show, are those of opening \<open>b\<close> on a page where no
  modal has been opened before. Nothing of \<open>a\<close> is left.
\<close>

theorem open_clears_previous_media:
  assumes "openApodModal a s0 = Inr s1"
    and "openApodModal b s1 = Inr s2"
    and "openApodModal b (initial_modal el) = Inr t"
  shows "media_children s2 = media_children t \<and> shown_media s2 = shown_media t"
proof -
  obtain s4 s5 where s: "media_children s4 = []" "place_media b s4 = Inr s5"
      "s2 = s5\<lparr>display := ''flex'', active := Some CloseBtn, esc_listener := True\<rparr>"
    using openApodModal_decomp [OF assms(2)] by blast
  obtain t4 t5 where t: "media_children t4 = []" "place_media b t4 = Inr t5"
      "t = t5\<lparr>display := ''flex'', active := Some CloseBtn, esc_listener := True\<rparr>"
    using openApodModal_decomp [OF assms(3)] by blast
  have "media_children s5 = media_children t5"
    using place_media_children [OF s(2) t(2) s(1) t(1)] .
  then have "media_children s2 = media_children t"
    using s(3) t(3) by simp
  moreover have "shown_media s5 = shown_media t5"
    using place_media_shown [OF s(2) t(2) s(1) t(1)] .
  then have "shown_media s2 = shown_media t"
    using s(3) t(3) by (simp add: shown_media_update)
  ultimately show ?thesis by simp
qed

theorem open_clears_previous_media_witness:
  "\<exists>s1 s2 t.
     openApodModal (JObj [(''media_type'', JStr ''video''),
                          (''url'', JStr ''https://www.youtube.com/embed/abc123'')])
       (initial_modal None) = Inr s1 \<and>
     media_children s1 =
       [ThumbImg (JStr ''https://img.youtube.com/vi/abc123/hqdefault.jpg'')
          (JStr ''Video thumbnail'') True,
        Hint ''This video will open on YouTube.'',
        WatchLink (JStr ''https://www.youtube.com/watch?v=abc123'')] \<and>
     openApodModal (JObj [(''media_type'', JStr ''image''), (''url'', JStr ''http://x/m1.jpg'')])
       s1 = Inr s2 \<and>
     openApodModal (JObj [(''media_type'', JStr ''image''), (''url'', JStr ''http://x/m1.jpg'')])
       (initial_modal None) = Inr t \<and>
     media_children t = [ImgEl] \<and>
     media_children s2 = media_children t \<and> shown_media s2 = shown_media t"
proof -
  let ?a = "JObj [(''media_type'', JStr ''video''),
                  (''url'', JStr ''https://www.youtube.com/embed/abc123'')]"
  let ?b = "JObj [(''media_type'', JStr ''image''), (''url'', JStr ''http://x/m1.jpg'')]"
  have n: "normalize_video (JStr ''https://www.youtube.com/embed/abc123'') JUndefined =
     Inr (JStr ''https://www.youtube.com/watch?v=abc123'',
          JStr ''https://img.youtube.com/vi/abc123/hqdefault.jpg'')"
    by code_simp
  obtain s1 where 1: "openApodModal ?a (initial_modal None) = Inr s1"
    using openApodModal_Inr [of ?a JUndefined] by auto
  have c1: "media_children s1 =
       [ThumbImg (JStr ''https://img.youtube.com/vi/abc123/hqdefault.jpg'')
          (JStr ''Video thumbnail'') True,
        Hint ''This video will open on YouTube.'',
        WatchLink (JStr ''https://www.youtube.com/watch?v=abc123'')]"
    using 1 n
    by (auto simp add: openApodModal_def place_media_def Let_def read_prop_def js_or_def
        remove_children_Nil appendChild_def)
  obtain s2 where 2: "openApodModal ?b s1 = Inr s2"
    using openApodModal_Inr [of ?b JUndefined] by auto
  obtain t where 3: "openApodModal ?b (initial_modal None) = Inr t"
    using openApodModal_Inr [of ?b JUndefined] by auto
  have c3: "media_children t = [ImgEl]"
    using 3
    by (auto simp add: openApodModal_def place_media_def Let_def read_prop_def js_or_def
        remove_children_Nil appendChild_def)
  show ?thesis
    using open_clears_previous_media [OF 1 2 3] 1 2 3 c1 c3 by blast
qed

text \<open>
  Claim C6. On a modal that has been opened, a click whose target is the overlay, a
  click on the close button and the Escape key all do what \<open>closeApodModal\<close> does: the
  modal is hidden, the Escape listener is unregistered, the iframe's source is cleared,
  and the focus goes back to the element that was focused when the modal was opened,
  provided that element has a \<^verbatim>\<open>focus\<close> function. A click inside the content box
  changes nothing.
\<close>

theorem close_triggers_converge:
  assumes "openApodModal item s0 = Inr s"
    and "ev = Click OnOverlay \<or> ev = Click OnCloseBtn \<or> ev = KeyDown ''Escape''"
  shows "handle_event ev s = closeApodModal s \<and>
         display (handle_event ev s) = ''none'' \<and>
         \<not> esc_listener (handle_event ev s) \<and>
         iframe_src (handle_event ev s) = JStr '''' \<and>
         (\<forall>el. active s0 = Some el \<and> has_focus_fn el \<longrightarrow>
               active (handle_event ev s) = Some el) \<and>
         handle_event (Click InsideBox) s = s"
proof -
  have o: "created s" "esc_listener s" "prev_active s = active s0"
    using openApodModal_open_state [OF assms(1)] by simp_all
  have "handle_event ev s = closeApodModal s"
    using assms(2) close_open_state(1-3) [OF o(1,2)] by auto
  then show ?thesis
    using close_open_state(4-7) [OF o(1,2)] o(3) by simp
qed

theorem close_triggers_converge_witness:
  "\<exists>s. openApodModal (JObj [(''media_type'', JStr ''image''), (''url'', JStr ''http://x/m1.jpg'')])
          (initial_modal (Some (PageEl 7 True))) = Inr s \<and>
        handle_event (Click OnOverlay) s = closeApodModal s \<and>
        handle_event (Click OnCloseBtn) s = closeApodModal s \<and>
        handle_event (KeyDown ''Escape'') s = closeApodModal s \<and>
        display (closeApodModal s) = ''none'' \<and>
        \<not> esc_listener (closeApodModal s) \<and>
        iframe_src (closeApodModal s) = JStr '''' \<and>
        active (closeApodModal s) = Some (PageEl 7 True)"
proof -
  let ?b = "JObj [(''media_type'', JStr ''image''), (''url'', JStr ''http://x/m1.jpg'')]"
  let ?i = "initial_modal (Some (PageEl 7 True))"
  obtain s where 1: "openApodModal ?b ?i = Inr s"
    using openApodModal_Inr [of ?b JUndefined] by auto
  have a: "active ?i = Some (PageEl 7 True)" "has_focus_fn (PageEl 7 True)"
    by (simp_all add: initial_modal_def)
  have "handle_event (Click OnOverlay) s = closeApodModal s"
    using close_triggers_converge [OF 1, of "Click OnOverlay"]
    by (simp del: handle_event.simps)
  moreover have "handle_event (Click OnCloseBtn) s = closeApodModal s"
    using close_triggers_converge [OF 1, of "Click OnCloseBtn"]
    by (simp del: handle_event.simps)
  moreover have "handle_event (KeyDown ''Escape'') s = closeApodModal s \<and>
        display (closeApodModal s) = ''none'' \<and>
        \<not> esc_listener (closeApodModal s) \<and>
        iframe_src (closeApodModal s) = JStr '''' \<and>
        active (closeApodModal s) = Some (PageEl 7 True)"
    using close_triggers_converge [OF 1, of "KeyDown ''Escape''"] a
    by (auto simp del: handle_event.simps)
  ultimately show ?thesis using 1 by blast
qed


subsection \<open>Rendering the gallery\<close>

text \<open>
  Claim C7. When the argument of \<open>renderGallery\<close> is not an array, or is the empty
  array, the gallery afterwards holds exactly one child, the "No items found."
  placeholder, hence no card, and no exception is raised; the previous content of the
  gallery does not matter.
\<close>

theorem render_no_items:
  assumes "(\<forall>xs. items \<noteq> JArr xs) \<or> items = JArr []"
  shows "renderGallery items g = ([Placeholder NoItemsFound], None)"
  using assms by (cases items) auto

theorem render_no_items_witness:
  "renderGallery (JArr []) [Placeholder LoadingPhotos] = ([Placeholder NoItemsFound], None) \<and>
   renderGallery (JObj [(''error'', JStr ''not found'')]) [Placeholder LoadingPhotos] =
     ([Placeholder NoItemsFound], None) \<and>
   renderGallery JNull [] = ([Placeholder NoItemsFound], None)"
  using render_no_items [of "JArr []" "[Placeholder LoadingPhotos]"]
    render_no_items [of "JObj [(''error'', JStr ''not found'')]" "[Placeholder LoadingPhotos]"]
    render_no_items [of JNull "[]"]
  by simp

text \<open>
  Claim C9. In the gallery a record whose media_type is missing or falsy gets an image
  card: an \<^verbatim>\<open>img\<close> whose source is the record's url (the empty string when that is
  missing too), not the "Unsupported media type" paragraph.
\<close>

theorem missing_media_type_is_image:
  assumes "get_prop item ''media_type'' = Inr mt" and "\<not> truthy mt"
  shows "\<exists>c. make_card item = Inr c \<and>
           media c = ImageMedia (js_or (read_prop item ''url'') (JStr ''''))
                                (js_or (read_prop item ''title'') (JStr ''Untitled''))"
proof -
  have "get_prop item ''title'' = Inr (read_prop item ''title'')"
    using get_prop_nonnull [OF assms(1)] .
  moreover have "read_prop item ''media_type'' = mt"
    using get_prop_read [OF assms(1)] .
  ultimately show ?thesis
    using make_card_media [of item] assms(2) by (auto simp add: Let_def js_or_def)
qed

theorem missing_media_type_is_image_witness:
  "get_prop (JObj [(''title'', JStr ''M1''), (''url'', JStr ''http://x/m1.jpg'')]) ''media_type''
     = Inr JUndefined \<and>
   \<not> truthy JUndefined \<and>
   (\<exists>c. make_card (JObj [(''title'', JStr ''M1''), (''url'', JStr ''http://x/m1.jpg'')]) = Inr c \<and>
         media c = ImageMedia (JStr ''http://x/m1.jpg'') (JStr ''M1''))"
  using missing_media_type_is_image
          [of "JObj [(''title'', JStr ''M1''), (''url'', JStr ''http://x/m1.jpg'')]" JUndefined]
  by (simp add: read_prop_def js_or_def)


subsection \<open>The fetch button\<close>

text \<open>
  Claim C8. When the click handler has run to its end, whatever the outcome of the
  request, the button is enabled and its label is "Fetch Space Images". When the
  attempt failed (the request failed, the status was not ok, the body did not parse,
  or rendering threw after some cards had been appended) the gallery holds the error
  placeholder and nothing else.
\<close>

theorem fetch_click_restores_button:
  "btn_disabled (getImageBtn_click r s) = False \<and>
   btn_label (getImageBtn_click r s) = ''Fetch Space Images'' \<and>
   (attempt_failed r \<longrightarrow> gallery (getImageBtn_click r s) = [Placeholder FailedToLoad])"
proof -
  obtain s' where "getImageBtn_click r s = on_fetch_finally s'"
    using getImageBtn_click_finally by blast
  then show ?thesis
    using getImageBtn_click_failed [of r s] by (simp add: finally_fields)
qed

theorem fetch_click_restores_button_witness:
  "attempt_failed NoResponse \<and>
   gallery (getImageBtn_click NoResponse
     \<lparr>btn_disabled = False, btn_label = ''Fetch Space Images'', gallery = [],
      fullData = JNull\<rparr>) = [Placeholder FailedToLoad] \<and>
   attempt_failed (Response True 200
     (Some (JArr [JObj [(''url'', JStr ''http://x/m1.jpg'')], JNull]))) \<and>
   fst (renderGallery (JArr [JObj [(''url'', JStr ''http://x/m1.jpg'')], JNull]) []) \<noteq> [] \<and>
   gallery (getImageBtn_click (Response True 200
       (Some (JArr [JObj [(''url'', JStr ''http://x/m1.jpg'')], JNull])))
     \<lparr>btn_disabled = False, btn_label = ''Fetch Space Images'', gallery = [],
      fullData = JNull\<rparr>) = [Placeholder FailedToLoad] \<and>
   btn_disabled (getImageBtn_click (Response True 200
       (Some (JArr [JObj [(''url'', JStr ''http://x/m1.jpg'')], JNull])))
     \<lparr>btn_disabled = False, btn_label = ''Fetch Space Images'', gallery = [],
      fullData = JNull\<rparr>) = False"
proof -
  have a: "attempt_failed NoResponse"
    by (simp add: attempt_failed_def)
  have b: "attempt_failed (Response True 200
     (Some (JArr [JObj [(''url'', JStr ''http://x/m1.jpg'')], JNull])))"
    by (simp add: attempt_failed_def make_card_def Let_def)
  have c: "fst (renderGallery (JArr [JObj [(''url'', JStr ''http://x/m1.jpg'')], JNull]) []) \<noteq> []"
    by (simp add: make_card_def Let_def)
  show ?thesis
    using fetch_click_restores_button [of NoResponse
        "\<lparr>btn_disabled = False, btn_label = ''Fetch Space Images'', gallery = [],
          fullData = JNull\<rparr>"]
      fetch_click_restores_button [of "Response True 200
          (Some (JArr [JObj [(''url'', JStr ''http://x/m1.jpg'')], JNull]))"
        "\<lparr>btn_disabled = False, btn_label = ''Fetch Space Images'', gallery = [],
          fullData = JNull\<rparr>"]
      a b c
    by simp
qed


subsection \<open>Media that cannot be shown\<close>

text \<open>
  Claim C10. In the modal, a record whose media_type is neither "image" nor "video",
  an image record with neither hdurl nor url, and a video record with neither url nor
  thumbnail_url all get the single paragraph "Media not available.". Whatever the
  record, the texts in the modal's media container are among four fixed texts, none of
  which names the media type; the message that carries the media type is the gallery
  card's, for a truthy media_type other than "image" and "video".
\<close>

theorem modal_media_not_available:
  assumes "get_prop item ''media_type'' = Inr mt"
  shows "((mt \<noteq> JStr ''image'' \<and> mt \<noteq> JStr ''video'')
          \<or> (mt = JStr ''image'' \<and> \<not> truthy (read_prop item ''hdurl'')
                \<and> \<not> truthy (read_prop item ''url''))
          \<or> (mt = JStr ''video'' \<and> \<not> truthy (read_prop item ''url'')
                \<and> \<not> truthy (read_prop item ''thumbnail_url''))
          \<longrightarrow> (\<exists>s'. openApodModal item s = Inr s' \<and>
                  media_children s' = [PText ''Media not available.'']))
       \<and> (\<exists>s'. openApodModal item s = Inr s' \<and>
             set (media_texts s') \<subseteq>
               {''Media not available.'', ''Video (no thumbnail available)'',
                ''This video will open on YouTube.'', ''Watch video on YouTube''})
       \<and> (truthy mt \<and> mt \<noteq> JStr ''image'' \<and> mt \<noteq> JStr ''video''
          \<longrightarrow> (\<exists>c. make_card item = Inr c \<and> media c = UnsupportedType mt))"
proof -
  have t: "get_prop item ''title'' = Inr (read_prop item ''title'')"
    using get_prop_nonnull [OF assms] .
  have m: "read_prop item ''media_type'' = mt"
    using get_prop_read [OF assms] .
  obtain s' where o: "openApodModal item s = Inr s'"
    using openApodModal_Inr [OF t] by blast
  obtain s4 s5 where s: "media_children s4 = []" "place_media item s4 = Inr s5"
      "s' = s5\<lparr>display := ''flex'', active := Some CloseBtn, esc_listener := True\<rparr>"
    using openApodModal_decomp [OF o] by blast
  have c: "media_children s' = media_children s5" "media_texts s' = media_texts s5"
    using s(3) by (simp_all add: media_texts_def)
  have 1: "(mt \<noteq> JStr ''image'' \<and> mt \<noteq> JStr ''video'')
          \<or> (mt = JStr ''image'' \<and> \<not> truthy (read_prop item ''hdurl'')
                \<and> \<not> truthy (read_prop item ''url''))
          \<or> (mt = JStr ''video'' \<and> \<not> truthy (read_prop item ''url'')
                \<and> \<not> truthy (read_prop item ''thumbnail_url''))
          \<Longrightarrow> media_children s' = [PText ''Media not available.'']"
    using place_media_not_available [OF m _ s(2) s(1)] c by simp
  have 2: "set (media_texts s') \<subseteq>
               {''Media not available.'', ''Video (no thumbnail available)'',
                ''This video will open on YouTube.'', ''Watch video on YouTube''}"
    using place_media_texts [OF s(2) s(1)] c by simp
  have 3: "truthy mt \<and> mt \<noteq> JStr ''image'' \<and> mt \<noteq> JStr ''video''
          \<Longrightarrow> \<exists>c. make_card item = Inr c \<and> media c = UnsupportedType mt"
    using make_card_media [OF t] m by (auto simp add: Let_def js_or_def)
  show ?thesis using o 1 2 3 by blast
qed

theorem modal_media_not_available_witness:
  "get_prop (JObj [(''media_type'', JStr ''audio''), (''url'', JStr ''http://x/a.mp3'')])
     ''media_type'' = Inr (JStr ''audio'') \<and>
   (\<exists>s'. openApodModal (JObj [(''media_type'', JStr ''audio''), (''url'', JStr ''http://x/a.mp3'')])
            (initial_modal None) = Inr s' \<and>
          media_children s' = [PText ''Media not available.'']) \<and>
   (\<exists>c. make_card (JObj [(''media_type'', JStr ''audio''), (''url'', JStr ''http://x/a.mp3'')])
           = Inr c \<and>
         media c = UnsupportedType (JStr ''audio'')) \<and>
   get_prop (JObj [(''media_type'', JStr ''image'')]) ''media_type'' = Inr (JStr ''image'') \<and>
   (\<exists>s'. openApodModal (JObj [(''media_type'', JStr ''image'')]) (initial_modal None) = Inr s' \<and>
          media_children s' = [PText ''Media not available.'']) \<and>
   get_prop (JObj [(''media_type'', JStr ''video'')]) ''media_type'' = Inr (JStr ''video'') \<and>
   (\<exists>s'. openApodModal (JObj [(''media_type'', JStr ''video'')]) (initial_modal None) = Inr s' \<and>
          media_children s' = [PText ''Media not available.''])"
  using modal_media_not_available
          [of "JObj [(''media_type'', JStr ''audio''), (''url'', JStr ''http://x/a.mp3'')]"
              "JStr ''audio''" "initial_modal None"]
    modal_media_not_available
          [of "JObj [(''media_type'', JStr ''image'')]" "JStr ''image''" "initial_modal None"]
    modal_media_not_available
          [of "JObj [(''media_type'', JStr ''video'')]" "JStr ''video''" "initial_modal None"]
  by (simp add: read_prop_def)

end
